theory Spec2Isabelle
  imports Complex_Main
begin

section \<open>Python values, errors and the agent record\<close>

text \<open>
  The module \<^verbatim>\<open>hstd/neighbor.py\<close> raises two exceptions of its own,
  \<^verbatim>\<open>pos_error\<close> and \<^verbatim>\<open>dir_error\<close>; the other constructors are the
  built-in exceptions that Python raises on a failed lookup, a failed subscript or a
  failed unpacking.
\<close>

datatype error = pos_error | dir_error | KeyError | TypeError | IndexError | ValueError

text \<open>
  The values the module handles: \<^verbatim>\<open>None\<close>, booleans, numbers and lists of numbers.
  The number type \<open>'a\<close> is left open; the module only subtracts, multiplies, adds and
  compares numbers, and tests them against zero.
\<close>

datatype 'a pyval = PNone | PBool bool | PNum 'a | PList "'a list"

text \<open>Python's truth value of an object (\<^verbatim>\<open>bool(v)\<close>, and what \<^verbatim>\<open>not v\<close> negates).\<close>

fun truthy :: "('a::zero) pyval \<Rightarrow> bool" where
  "truthy PNone = False"
| "truthy (PBool b) = b"
| "truthy (PNum x) = (x \<noteq> 0)"
| "truthy (PList xs) = (xs \<noteq> [])"

text \<open>\<^verbatim>\<open>a or b\<close> is \<^verbatim>\<open>a\<close> when \<^verbatim>\<open>a\<close> is true, and \<^verbatim>\<open>b\<close> otherwise.\<close>

definition py_or :: "('a::zero) pyval \<Rightarrow> 'a pyval \<Rightarrow> 'a pyval" where
  "py_or a b = (if truthy a then a else b)"

text \<open>Sequencing of computations that may raise: the first exception wins.\<close>

definition bindE :: "error + 'b \<Rightarrow> ('b \<Rightarrow> error + 'c) \<Rightarrow> error + 'c" where
  "bindE r f = (case r of Inl e \<Rightarrow> Inl e | Inr v \<Rightarrow> f v)"

text \<open>
  Modelled from the spec: \<^verbatim>\<open>AgentState\<close> is imported from \<^verbatim>\<open>.agent\<close>, which is not
  among the sources. The spec describes an agent as a mapping from field name to value
  with the fields \<^verbatim>\<open>position\<close> and \<^verbatim>\<open>direction\<close>, either of which may be
  absent (\<^verbatim>\<open>None\<close>); further fields are opaque to this module.
\<close>

record 'a AgentState =
  position :: "'a pyval"
  direction :: "'a pyval"

text \<open>A subscript on an agent is a field name or, in one place of the module, an integer.\<close>

datatype key = KStr string | KInt nat

text \<open>
  Modelled from the spec: \<^verbatim>\<open>agent[k]\<close>. The record maps field names to values;
  a key that names no field (any integer, any other string) finds nothing and raises.
\<close>

fun getitem :: "'a AgentState \<Rightarrow> key \<Rightarrow> error + 'a pyval" where
  "getitem ag (KStr n) =
     (if n = ''position'' then Inr (position ag)
      else if n = ''direction'' then Inr (direction ag)
      else Inl KeyError)"
| "getitem ag (KInt i) = Inl KeyError"

text \<open>
  \<^verbatim>\<open>v[i]\<close> for \<open>i \<ge> 0\<close> on a value: only a list can be subscripted, and only within
  its length.
\<close>

fun subscript :: "'a pyval \<Rightarrow> nat \<Rightarrow> error + 'a" where
  "subscript (PList xs) i = (if i < length xs then Inr (xs ! i) else Inl IndexError)"
| "subscript PNone i = Inl TypeError"
| "subscript (PBool b) i = Inl TypeError"
| "subscript (PNum x) i = Inl TypeError"

text \<open>\<^verbatim>\<open>len(v)\<close>.\<close>

fun py_len :: "'a pyval \<Rightarrow> error + nat" where
  "py_len (PList xs) = Inr (length xs)"
| "py_len PNone = Inl TypeError"
| "py_len (PBool b) = Inl TypeError"
| "py_len (PNum x) = Inl TypeError"

text \<open>\<^verbatim>\<open>[a, b, c] = v\<close>: unpacking into exactly three names.\<close>

fun unpack3 :: "'a pyval \<Rightarrow> error + ('a \<times> 'a \<times> 'a)" where
  "unpack3 (PList xs) = (case xs of [a, b, c] \<Rightarrow> Inr (a, b, c) | _ \<Rightarrow> Inl ValueError)"
| "unpack3 PNone = Inl TypeError"
| "unpack3 (PBool b) = Inl TypeError"
| "unpack3 (PNum x) = Inl TypeError"

text \<open>
  A list comprehension \<^verbatim>\<open>[f(i) for i in is]\<close> whose body may raise: the elements are
  computed from left to right and the first exception ends the comprehension.
\<close>

fun comprehension :: "('i \<Rightarrow> error + 'b) \<Rightarrow> 'i list \<Rightarrow> error + 'b list" where
  "comprehension f [] = Inr []"
| "comprehension f (i # rest) =
     (case f i of
        Inl e \<Rightarrow> Inl e
      | Inr y \<Rightarrow> (case comprehension f rest of Inl e \<Rightarrow> Inl e | Inr ys \<Rightarrow> Inr (y # ys)))"

text \<open>
  \<^verbatim>\<open>functools.reduce(f, xs)\<close> without an initial value: a left fold that starts from the
  first element, and a \<^verbatim>\<open>TypeError\<close> on the empty sequence.
\<close>

fun reduce :: "('b \<Rightarrow> 'b \<Rightarrow> 'b) \<Rightarrow> 'b list \<Rightarrow> error + 'b" where
  "reduce f [] = Inl TypeError"
| "reduce f (x # xs) = Inr (foldl f x xs)"

text \<open>
  \<^verbatim>\<open>filter(p, xs)\<close> builds a lazy filter object and evaluates nothing; \<open>py_list\<close>
  is \<^verbatim>\<open>list(...)\<close> of it, which calls the predicate on the elements in order, keeps
  those it accepts and passes on the first exception the predicate raises.
\<close>

datatype 'x filter_obj = py_filter "'x \<Rightarrow> error + bool" "'x list"

fun filter_list :: "('x \<Rightarrow> error + bool) \<Rightarrow> 'x list \<Rightarrow> error + 'x list" where
  "filter_list p [] = Inr []"
| "filter_list p (x # xs) =
     (case p x of
        Inl e \<Rightarrow> Inl e
      | Inr b \<Rightarrow>
          (case filter_list p xs of
             Inl e \<Rightarrow> Inl e
           | Inr ys \<Rightarrow> Inr (if b then x # ys else ys)))"

fun py_list :: "'x filter_obj \<Rightarrow> error + 'x list" where
  "py_list (py_filter p xs) = filter_list p xs"

section \<open>The distance functions\<close>

text \<open>
  Modelled from the spec: the four distance functions are imported from \<^verbatim>\<open>.spatial\<close>,
  which is not among the sources. \<open>neighbors_in_radius\<close> takes them as a parameter:
  each maps two positions to a distance or raises.
\<close>

record ('a, 'd) spatial =
  manhattan_distance :: "'a pyval \<Rightarrow> 'a pyval \<Rightarrow> error + 'd"
  euclidean_distance :: "'a pyval \<Rightarrow> 'a pyval \<Rightarrow> error + 'd"
  euclidean_squared_distance :: "'a pyval \<Rightarrow> 'a pyval \<Rightarrow> error + 'd"
  chebyshev_distance :: "'a pyval \<Rightarrow> 'a pyval \<Rightarrow> error + 'd"

section \<open>The neighbor functions\<close>

subsection \<open>\<^verbatim>\<open>neighbors_on_position\<close>\<close>

text \<open>
  The inner function \<^verbatim>\<open>on_position\<close>. It subscripts the neighbor record itself with
  the index (\<^verbatim>\<open>neighbor[ind]\<close>), as the source does.
\<close>

definition on_position :: "'a AgentState \<Rightarrow> 'a AgentState \<Rightarrow> error + bool" where
  "on_position agent neighbor =
     bindE (getitem agent (KStr ''position'')) (\<lambda>pos.
     bindE (py_len pos) (\<lambda>n.
     bindE (comprehension
              (\<lambda>ind. bindE (subscript pos ind) (\<lambda>x.
                      bindE (getitem neighbor (KInt ind)) (\<lambda>y. Inr (PNum x = y))))
              [0..<n]) (\<lambda>pos_equal.
     reduce (\<lambda>a b. a \<and> b) pos_equal)))"

definition neighbors_on_position ::
  "('a::zero) AgentState \<Rightarrow> 'a AgentState list \<Rightarrow> error + 'a AgentState filter_obj" where
  "neighbors_on_position agent neighbors =
     bindE (getitem agent (KStr ''position'')) (\<lambda>p.
       if \<not> truthy p then Inl pos_error
       else Inr (py_filter (on_position agent) neighbors))"

subsection \<open>\<^verbatim>\<open>neighbors_in_radius\<close>\<close>

text \<open>The dictionary \<^verbatim>\<open>func\<close> from names to distance functions.\<close>

definition func ::
  "('a, 'd) spatial \<Rightarrow> string \<rightharpoonup> ('a pyval \<Rightarrow> 'a pyval \<Rightarrow> error + 'd)" where
  "func sp =
     [''manhattan'' \<mapsto> manhattan_distance sp,
      ''euclidean'' \<mapsto> euclidean_distance sp,
      ''euclidean_squared'' \<mapsto> euclidean_squared_distance sp,
      ''chebyshev'' \<mapsto> chebyshev_distance sp]"

text \<open>
  The inner function \<^verbatim>\<open>in_radius\<close>. The callee \<^verbatim>\<open>func[distance_function]\<close> is
  evaluated before its arguments.
\<close>

definition in_radius ::
  "('a, 'd::ord) spatial \<Rightarrow> 'a AgentState \<Rightarrow> 'd \<Rightarrow> 'd \<Rightarrow> string \<Rightarrow> 'a AgentState
     \<Rightarrow> error + bool" where
  "in_radius sp agent max_radius min_radius distance_function neighbor =
     bindE (getitem agent (KStr ''position'')) (\<lambda>pos.
       case func sp distance_function of
         None \<Rightarrow> Inl KeyError
       | Some f \<Rightarrow>
           bindE (getitem neighbor (KStr ''position'')) (\<lambda>npos.
           bindE (f npos pos) (\<lambda>d.
           Inr (d \<le> max_radius \<and> d \<ge> min_radius))))"

definition neighbors_in_radius ::
  "('a::zero, 'd::ord) spatial \<Rightarrow> 'a AgentState \<Rightarrow> 'a AgentState list \<Rightarrow> 'd \<Rightarrow> 'd \<Rightarrow> string
     \<Rightarrow> bool \<Rightarrow> error + 'a AgentState filter_obj" where
  "neighbors_in_radius sp agent neighbors max_radius min_radius distance_function z_axis =
     bindE (getitem agent (KStr ''position'')) (\<lambda>p.
       if \<not> truthy p then Inl pos_error
       else Inr (py_filter (in_radius sp agent max_radius min_radius distance_function)
                   neighbors))"

subsection \<open>The orientation tests\<close>

text \<open>
  The comprehension \<^verbatim>\<open>[n_pos[ind] - a_pos[ind] for ind in range(3)]\<close> of both
  orientation tests.
\<close>

definition displacement :: "('a::minus) pyval \<Rightarrow> 'a pyval \<Rightarrow> error + 'a list" where
  "displacement n_pos a_pos =
     comprehension
       (\<lambda>ind. bindE (subscript n_pos ind) (\<lambda>n.
               bindE (subscript a_pos ind) (\<lambda>a. Inr (n - a))))
       [0, 1, 2]"

definition in_front_planar ::
  "('a::{zero,plus,minus,times,ord}) AgentState \<Rightarrow> 'a AgentState \<Rightarrow> error + bool" where
  "in_front_planar agent neighbor =
     bindE (getitem agent (KStr ''position'')) (\<lambda>a_pos.
     bindE (getitem neighbor (KStr ''position'')) (\<lambda>n_pos.
     bindE (getitem agent (KStr ''direction'')) (\<lambda>a_dir.
     bindE (displacement n_pos a_pos) (\<lambda>ds.
       case ds of
         [dx, dy, dz] \<Rightarrow>
           bindE (subscript a_dir 0) (\<lambda>a0.
           bindE (subscript a_dir 1) (\<lambda>a1.
           bindE (subscript a_dir 2) (\<lambda>a2.
             let D = a0 * dx + a1 * dy + a2 * dz in Inr (D > 0))))
       | _ \<Rightarrow> Inl ValueError))))"

definition is_linear ::
  "('a::{zero,plus,minus,times,ord}) AgentState \<Rightarrow> 'a AgentState \<Rightarrow> bool \<Rightarrow> error + bool" where
  "is_linear agent neighbor front =
     bindE (getitem agent (KStr ''position'')) (\<lambda>a_pos.
     bindE (getitem neighbor (KStr ''position'')) (\<lambda>n_pos.
     bindE (displacement n_pos a_pos) (\<lambda>ds.
       case ds of
         [dx, dy, dz] \<Rightarrow>
           bindE (getitem agent (KStr ''direction'')) (\<lambda>a_dir.
           bindE (unpack3 a_dir) (\<lambda>(ax, ay, az).
             let cross_product =
               [PNum (dy * az - dz * ay), PNum (dx * az - dz * ax), PNum (dx * ay - dy * ax)]
             in
             bindE (reduce (\<lambda>a b. PBool (\<not> truthy (py_or a b))) cross_product) (\<lambda>all_zero.
               if \<not> truthy all_zero then Inr False
               else
                 let same_dir = (dx > 0 \<and> ax > 0) \<or> (dy > 0 \<and> ay > 0) \<or> (dz > 0 \<and> az > 0)
                 in Inr (same_dir = front))))
       | _ \<Rightarrow> Inl ValueError)))"

subsection \<open>\<^verbatim>\<open>neighbors_in_front\<close> and \<^verbatim>\<open>neighbors_behind\<close>\<close>

definition neighbors_in_front ::
  "('a::{zero,plus,minus,times,ord}) AgentState \<Rightarrow> 'a AgentState list \<Rightarrow> bool
     \<Rightarrow> error + 'a AgentState filter_obj" where
  "neighbors_in_front agent neighbors colinear =
     bindE (getitem agent (KStr ''position'')) (\<lambda>p.
       if \<not> truthy p then Inl pos_error
       else
         bindE (getitem agent (KStr ''direction'')) (\<lambda>d.
           if \<not> truthy d then Inl dir_error
           else if colinear then Inr (py_filter (\<lambda>n. is_linear agent n True) neighbors)
           else Inr (py_filter (\<lambda>n. in_front_planar agent n) neighbors)))"

definition neighbors_behind ::
  "('a::{zero,plus,minus,times,ord}) AgentState \<Rightarrow> 'a AgentState list \<Rightarrow> bool
     \<Rightarrow> error + 'a AgentState filter_obj" where
  "neighbors_behind agent neighbors colinear =
     bindE (getitem agent (KStr ''position'')) (\<lambda>p.
       if \<not> truthy p then Inl pos_error
       else
         bindE (getitem agent (KStr ''direction'')) (\<lambda>d.
           if \<not> truthy d then Inl dir_error
           else if colinear then Inr (py_filter (\<lambda>n. is_linear agent n False) neighbors)
           else Inr (py_filter
                       (\<lambda>n. bindE (in_front_planar agent n) (\<lambda>b. Inr (\<not> b))) neighbors)))"

section \<open>Notions of the specification\<close>

text \<open>
  A vector that the orientation tests can read: a list with (at least) the three
  components that \<^verbatim>\<open>range(3)\<close> subscripts.
\<close>

definition vec3 :: "'a pyval \<Rightarrow> bool" where
  "vec3 v = (case v of PList xs \<Rightarrow> 3 \<le> length xs | _ \<Rightarrow> False)"

definition coords :: "'a pyval \<Rightarrow> 'a list" where
  "coords v = (case v of PList xs \<Rightarrow> xs | _ \<Rightarrow> [])"

text \<open>
  The dot product \<open>D\<close> of the specification: the agent's direction times the displacement
  from the agent to the neighbor, over the first three components.
\<close>

definition dot_displacement ::
  "('a::{plus,minus,times}) AgentState \<Rightarrow> 'a AgentState \<Rightarrow> 'a" where
  "dot_displacement agent neighbor =
     (let a = coords (direction agent); p = coords (position agent);
          q = coords (position neighbor)
      in a ! 0 * (q ! 0 - p ! 0) + a ! 1 * (q ! 1 - p ! 1) + a ! 2 * (q ! 2 - p ! 2))"

text \<open>
  Modelled from the spec: the distance functions of \<^verbatim>\<open>.spatial\<close> as section 4.1 of the
  specification describes them, over the reals: each takes two coordinate sequences of
  equal length and fails otherwise. Manhattan is the sum of the absolute component
  differences, Euclidean the square root of the sum of the squared differences,
  Euclidean-squared that sum itself, Chebyshev the largest absolute difference. They
  serve as a concrete instance of the parameter of \<open>neighbors_in_radius\<close>.
\<close>

definition lift_distance ::
  "(real list \<Rightarrow> real) \<Rightarrow> real pyval \<Rightarrow> real pyval \<Rightarrow> error + real" where
  "lift_distance f a b =
     (case (a, b) of
        (PList xs, PList ys) \<Rightarrow>
          if length xs = length ys then Inr (f (map2 (\<lambda>x y. x - y) xs ys)) else Inl ValueError
      | _ \<Rightarrow> Inl TypeError)"

definition spatial_spec :: "(real, real) spatial" where
  "spatial_spec =
     \<lparr>manhattan_distance = lift_distance (\<lambda>ds. sum_list (map abs ds)),
      euclidean_distance = lift_distance (\<lambda>ds. sqrt (sum_list (map (\<lambda>d. d * d) ds))),
      euclidean_squared_distance = lift_distance (\<lambda>ds. sum_list (map (\<lambda>d. d * d) ds)),
      chebyshev_distance = lift_distance (\<lambda>ds. foldr max (map abs ds) 0)\<rparr>"

section \<open>Basic facts\<close>

lemma bindE_Inr: "bindE (Inr v) f = f v"
  by (simp add: bindE_def)

lemma bindE_Inl: "bindE (Inl e) f = Inl e"
  by (simp add: bindE_def)

lemma getitem_position: "getitem ag (KStr ''position'') = Inr (position ag)"
  by simp

lemma getitem_direction: "getitem ag (KStr ''direction'') = Inr (direction ag)"
  by simp

lemma displacement3:
  "displacement (PList [qx, qy, qz]) (PList [px, py, pz]) = Inr [qx - px, qy - py, qz - pz]"
  by (simp add: displacement_def bindE_def)

text \<open>
  When the predicate raises on no element, \<^verbatim>\<open>list(filter(p, xs))\<close> is the ordinary
  filter: the same elements in the same order.
\<close>

lemma filter_list_total:
  "\<forall>x\<in>set xs. p x = Inr (q x) \<Longrightarrow> filter_list p xs = Inr (filter q xs)"
  by (induction xs) auto

lemma vec3_D: "vec3 v \<Longrightarrow> \<exists>xs. v = PList xs \<and> 3 \<le> length xs"
  by (cases v) (auto simp: vec3_def)

lemma func_named:
  "(name, dfun) \<in> {(''manhattan'', manhattan_distance sp), (''euclidean'', euclidean_distance sp),
      (''euclidean_squared'', euclidean_squared_distance sp),
      (''chebyshev'', chebyshev_distance sp)} \<Longrightarrow> func sp name = Some dfun"
  by (auto simp: func_def)

lemma func_unknown:
  "name \<notin> {''manhattan'', ''euclidean'', ''euclidean_squared'', ''chebyshev''}
   \<Longrightarrow> func sp name = None"
  by (simp add: func_def)

section \<open>\<^verbatim>\<open>neighbors_on_position\<close>\<close>

text \<open>
  The predicate \<^verbatim>\<open>on_position\<close> never reads the neighbor's position: it subscripts the
  neighbor record with the component index. Whatever the two positions are, the first
  comparison raises.
\<close>

lemma on_position_raises:
  "position agent = PList (x # xs) \<Longrightarrow> on_position agent neighbor = Inl KeyError"
  by (simp add: on_position_def bindE_def upt_conv_Cons del: upt_Suc)

text \<open>
  C1. The claim: \<open>neighbors_on_position\<close> returns exactly the candidates whose position
  equals the agent's, component by component. The code at a candidate on the agent's
  own position \<open>[0, 0]\<close>: evaluating the result raises \<^verbatim>\<open>KeyError\<close> instead of
  returning the candidate.
\<close>

theorem neighbors_on_position_failing_input:
  "bindE (neighbors_on_position \<lparr>position = PList [0, 0 :: int], direction = PNone\<rparr>
            [\<lparr>position = PList [0, 0], direction = PNone\<rparr>]) py_list = Inl KeyError"
  by (simp add: neighbors_on_position_def on_position_def bindE_def upt_conv_Cons)

section \<open>\<^verbatim>\<open>neighbors_in_radius\<close>\<close>

text \<open>
  C4. For a reference agent with a position, each of the four named distance functions
  and candidates on which that function is defined (with \<open>\<delta> c\<close> the distance between
  the agent's and the candidate's position, in either argument order),
  \<open>neighbors_in_radius\<close> returns exactly the candidates \<open>c\<close> with
  \<open>min_radius \<le> \<delta> c \<le> max_radius\<close>, in their order; a candidate at distance
  \<open>min_radius\<close> or \<open>max_radius\<close> is kept.
\<close>

theorem neighbors_in_radius_inclusive:
  fixes sp :: "('a::zero, 'd::preorder) spatial"
  assumes "truthy (position agent)"
    and "(name, dfun) \<in>
           {(''manhattan'', manhattan_distance sp), (''euclidean'', euclidean_distance sp),
            (''euclidean_squared'', euclidean_squared_distance sp),
            (''chebyshev'', chebyshev_distance sp)}"
    and "\<forall>c\<in>set C. dfun (position agent) (position c) = Inr (\<delta> c) \<and>
                    dfun (position c) (position agent) = Inr (\<delta> c)"
  shows "\<exists>f r. neighbors_in_radius sp agent C max_radius min_radius name z_axis = Inr f \<and>
           py_list f = Inr r \<and>
           r = filter (\<lambda>c. min_radius \<le> \<delta> c \<and> \<delta> c \<le> max_radius) C \<and>
           (\<forall>c\<in>set C. min_radius \<le> max_radius \<and> (\<delta> c = min_radius \<or> \<delta> c = max_radius)
                        \<longrightarrow> c \<in> set r)"
proof -
  have fn: "func sp name = Some dfun"
    using assms(2) by (rule func_named)
  have "\<forall>c\<in>set C. in_radius sp agent max_radius min_radius name c
                     = Inr (min_radius \<le> \<delta> c \<and> \<delta> c \<le> max_radius)"
    using assms(3) fn by (auto simp: in_radius_def bindE_def)
  then have "filter_list (in_radius sp agent max_radius min_radius name) C
               = Inr (filter (\<lambda>c. min_radius \<le> \<delta> c \<and> \<delta> c \<le> max_radius) C)"
    by (rule filter_list_total)
  then show ?thesis
    using assms(1) by (auto simp: neighbors_in_radius_def bindE_def)
qed

text \<open>
  An instance with the Manhattan distance of the specification, radius bounds \<open>1\<close> and
  \<open>3\<close>, and candidates at distances \<open>3\<close>, \<open>5\<close>, \<open>1\<close> and \<open>0\<close>: the two on the
  bounds are kept.
\<close>

theorem neighbors_in_radius_inclusive_witness:
  "truthy (position \<lparr>position = PList [0, 0, 0 :: real], direction = PNone\<rparr>) \<and>
   bindE (neighbors_in_radius spatial_spec
            \<lparr>position = PList [0, 0, 0], direction = PNone\<rparr>
            [\<lparr>position = PList [2, 1, 0], direction = PNone\<rparr>,
             \<lparr>position = PList [0, 5, 0], direction = PNone\<rparr>,
             \<lparr>position = PList [0, 0, 1], direction = PNone\<rparr>,
             \<lparr>position = PList [0, 0, 0], direction = PNone\<rparr>]
            3 1 ''manhattan'' False) py_list
   = Inr [\<lparr>position = PList [2, 1, 0], direction = PNone\<rparr>,
          \<lparr>position = PList [0, 0, 1], direction = PNone\<rparr>]"
proof -
  let ?a = "\<lparr>position = PList [0, 0, 0 :: real], direction = PNone\<rparr>"
  let ?n1 = "\<lparr>position = PList [2, 1, 0 :: real], direction = PNone\<rparr>"
  let ?n2 = "\<lparr>position = PList [0, 5, 0 :: real], direction = PNone\<rparr>"
  let ?n3 = "\<lparr>position = PList [0, 0, 1 :: real], direction = PNone\<rparr>"
  let ?n4 = "\<lparr>position = PList [0, 0, 0 :: real], direction = PNone\<rparr>"
  let ?C = "[?n1, ?n2, ?n3, ?n4]"
  let ?d = "\<lambda>c. if c = ?n1 then 3 else if c = ?n2 then 5 else if c = ?n3 then 1 else (0::real)"
  have h1: "truthy (position ?a)" by simp
  have h2: "(''manhattan'', manhattan_distance spatial_spec) \<in>
           {(''manhattan'', manhattan_distance spatial_spec),
            (''euclidean'', euclidean_distance spatial_spec),
            (''euclidean_squared'', euclidean_squared_distance spatial_spec),
            (''chebyshev'', chebyshev_distance spatial_spec)}"
    by simp
  have h3: "\<forall>c\<in>set ?C.
              manhattan_distance spatial_spec (position ?a) (position c) = Inr (?d c) \<and>
              manhattan_distance spatial_spec (position c) (position ?a) = Inr (?d c)"
    by (simp add: spatial_spec_def lift_distance_def)
  from neighbors_in_radius_inclusive [OF h1 h2 h3, of 3 1 False]
  show ?thesis
    by (auto simp: bindE_def)
qed

text \<open>
  C7. The result of \<open>neighbors_in_radius\<close> with \<open>z_axis = True\<close> is the result with
  \<open>z_axis = False\<close>: the flag has no effect.
\<close>

theorem neighbors_in_radius_z_axis_ignored:
  "neighbors_in_radius sp agent C max_radius min_radius name True
   = neighbors_in_radius sp agent C max_radius min_radius name False"
  by (simp add: neighbors_in_radius_def)

text \<open>
  C8. For a reference agent with a position and a non-empty candidate sequence, a
  \<open>distance_function\<close> name outside the four known names makes the call return a
  filter object whose evaluation fails with \<^verbatim>\<open>KeyError\<close>.
\<close>

theorem neighbors_in_radius_unknown_name:
  assumes "truthy (position agent)" and "C \<noteq> []"
    and "name \<notin> {''manhattan'', ''euclidean'', ''euclidean_squared'', ''chebyshev''}"
  shows "\<exists>f. neighbors_in_radius sp agent C max_radius min_radius name z_axis = Inr f \<and>
           py_list f = Inl KeyError"
proof -
  obtain c cs where C: "C = c # cs"
    using assms(2) by (cases C) auto
  have "in_radius sp agent max_radius min_radius name c = Inl KeyError"
    using func_unknown [OF assms(3), of sp] by (simp add: in_radius_def bindE_def)
  then show ?thesis
    using assms(1) C by (simp add: neighbors_in_radius_def bindE_def)
qed

text \<open>An instance with the unknown name \<^verbatim>\<open>minkowski\<close>.\<close>

theorem neighbors_in_radius_unknown_name_witness:
  "bindE (neighbors_in_radius spatial_spec
            \<lparr>position = PList [0, 0, 0], direction = PNone\<rparr>
            [\<lparr>position = PList [2, 0, 0], direction = PNone\<rparr>]
            3 0 ''minkowski'' False) py_list
   = Inl KeyError"
proof -
  have h1: "truthy (position \<lparr>position = PList [0, 0, 0 :: real], direction = PNone\<rparr>)"
    by simp
  have h2: "[\<lparr>position = PList [2, 0, 0 :: real], direction = PNone\<rparr>] \<noteq> []"
    by simp
  have h3: "''minkowski'' \<notin> {''manhattan'', ''euclidean'', ''euclidean_squared'', ''chebyshev''}"
    by simp
  from neighbors_in_radius_unknown_name [OF h1 h2 h3, of spatial_spec 3 0 False]
  show ?thesis
    by (auto simp: bindE_def)
qed

section \<open>The half-space test\<close>

lemma displacement_vec3:
  "3 \<le> length q \<Longrightarrow> 3 \<le> length p \<Longrightarrow>
   displacement (PList q) (PList p) = Inr [q ! 0 - p ! 0, q ! 1 - p ! 1, q ! 2 - p ! 2]"
  by (auto simp: displacement_def bindE_def)

lemma in_front_planar_vec3:
  assumes "vec3 (position agent)" "vec3 (direction agent)" "vec3 (position c)"
  shows "in_front_planar agent c = Inr (0 < dot_displacement agent c)"
proof -
  obtain p where p: "position agent = PList p" "3 \<le> length p"
    using assms(1) vec3_D by blast
  obtain a where a: "direction agent = PList a" "3 \<le> length a"
    using assms(2) vec3_D by blast
  obtain q where q: "position c = PList q" "3 \<le> length q"
    using assms(3) vec3_D by blast
  show ?thesis
    using p a q
    by (auto simp: in_front_planar_def displacement_vec3 bindE_def dot_displacement_def coords_def)
qed

text \<open>
  C5. For an agent with a 3-component position and direction and a neighbor with a
  3-component position, \<open>in_front_planar\<close> returns true iff the dot product \<open>D\<close> of the
  agent's direction with the displacement to the neighbor is strictly positive; in
  particular \<open>D = 0\<close> is not in front.
\<close>

theorem in_front_planar_iff_dot_positive:
  fixes ax :: "'a::{zero,plus,minus,times,preorder}"
  shows "in_front_planar \<lparr>position = PList [px, py, pz], direction = PList [ax, ay, az]\<rparr>
                   \<lparr>position = PList [qx, qy, qz], direction = nd\<rparr>
           = Inr (0 < ax * (qx - px) + ay * (qy - py) + az * (qz - pz)) \<and>
         (ax * (qx - px) + ay * (qy - py) + az * (qz - pz) = 0 \<longrightarrow>
            in_front_planar \<lparr>position = PList [px, py, pz], direction = PList [ax, ay, az]\<rparr>
                   \<lparr>position = PList [qx, qy, qz], direction = nd\<rparr> = Inr False)"
  by (simp add: in_front_planar_def displacement3 bindE_def)

text \<open>
  The three cases of the specification for direction \<open>(1, 0, 0)\<close>: offset \<open>(1, 0, 0)\<close> is
  in front, offsets \<open>(-1, 0, 0)\<close> and \<open>(0, 1, 0)\<close> are not.
\<close>

theorem in_front_planar_witness:
  "in_front_planar \<lparr>position = PList [5, 5, 5], direction = PList [1, 0, 0 :: int]\<rparr>
                   \<lparr>position = PList [6, 5, 5], direction = PNone\<rparr> = Inr True \<and>
   in_front_planar \<lparr>position = PList [5, 5, 5], direction = PList [1, 0, 0 :: int]\<rparr>
                   \<lparr>position = PList [4, 5, 5], direction = PNone\<rparr> = Inr False \<and>
   in_front_planar \<lparr>position = PList [5, 5, 5], direction = PList [1, 0, 0 :: int]\<rparr>
                   \<lparr>position = PList [5, 6, 5], direction = PNone\<rparr> = Inr False"
  using in_front_planar_iff_dot_positive [of 5 5 5 "1::int" 0 0 6 5 5 PNone]
    in_front_planar_iff_dot_positive [of 5 5 5 "1::int" 0 0 4 5 5 PNone]
    in_front_planar_iff_dot_positive [of 5 5 5 "1::int" 0 0 5 6 5 PNone]
  by simp

text \<open>
  C10. In planar mode, for a reference agent and candidates whose vectors have the three
  components the test reads, \<open>neighbors_in_front\<close> keeps the candidates with \<open>D > 0\<close>
  and \<open>neighbors_behind\<close> those with \<open>\<not> D > 0\<close>, each in the order of the input:
  every candidate is in exactly one of the two results, and a candidate with \<open>D = 0\<close> is
  in \<open>neighbors_behind\<close>.
\<close>

theorem planar_front_behind_partition:
  fixes agent :: "('a::{zero,plus,minus,times,preorder}) AgentState"
  assumes "vec3 (position agent)" and "vec3 (direction agent)"
    and "\<forall>c\<in>set C. vec3 (position c)"
  shows "\<exists>front behind.
           bindE (neighbors_in_front agent C False) py_list = Inr front \<and>
           bindE (neighbors_behind agent C False) py_list = Inr behind \<and>
           front = filter (\<lambda>c. 0 < dot_displacement agent c) C \<and>
           behind = filter (\<lambda>c. \<not> 0 < dot_displacement agent c) C \<and>
           (\<forall>c\<in>set C. (c \<in> set front) = (c \<notin> set behind)) \<and>
           (\<forall>c\<in>set C. dot_displacement agent c = 0 \<longrightarrow> c \<in> set behind)"
proof -
  have pos: "truthy (position agent)" and dir: "truthy (direction agent)"
    using assms(1,2) by (auto dest!: vec3_D)
  have f: "\<forall>c\<in>set C. in_front_planar agent c = Inr (0 < dot_displacement agent c)"
    using assms by (simp add: in_front_planar_vec3)
  then have b: "\<forall>c\<in>set C. bindE (in_front_planar agent c) (\<lambda>b. Inr (\<not> b))
                  = Inr (\<not> 0 < dot_displacement agent c)"
    by (simp add: bindE_def)
  have 1: "bindE (neighbors_in_front agent C False) py_list
             = Inr (filter (\<lambda>c. 0 < dot_displacement agent c) C)"
    using pos dir filter_list_total [OF f] by (simp add: neighbors_in_front_def bindE_def)
  have 2: "bindE (neighbors_behind agent C False) py_list
             = Inr (filter (\<lambda>c. \<not> 0 < dot_displacement agent c) C)"
    using pos dir filter_list_total [OF b] by (simp add: neighbors_behind_def bindE_def)
  show ?thesis
    unfolding 1 2 by auto
qed

text \<open>
  An instance: the agent at the origin facing \<open>(1, 0, 0)\<close> and candidates ahead, behind
  and perpendicular.
\<close>

theorem planar_front_behind_partition_witness:
  "bindE (neighbors_in_front \<lparr>position = PList [0, 0, 0], direction = PList [1, 0, 0 :: int]\<rparr>
            [\<lparr>position = PList [2, 0, 0], direction = PNone\<rparr>,
             \<lparr>position = PList [- 2, 0, 0], direction = PNone\<rparr>,
             \<lparr>position = PList [0, 2, 0], direction = PNone\<rparr>] False) py_list
     = Inr [\<lparr>position = PList [2, 0, 0], direction = PNone\<rparr>] \<and>
   bindE (neighbors_behind \<lparr>position = PList [0, 0, 0], direction = PList [1, 0, 0 :: int]\<rparr>
            [\<lparr>position = PList [2, 0, 0], direction = PNone\<rparr>,
             \<lparr>position = PList [- 2, 0, 0], direction = PNone\<rparr>,
             \<lparr>position = PList [0, 2, 0], direction = PNone\<rparr>] False) py_list
     = Inr [\<lparr>position = PList [- 2, 0, 0], direction = PNone\<rparr>,
            \<lparr>position = PList [0, 2, 0], direction = PNone\<rparr>]"
proof -
  let ?a = "\<lparr>position = PList [0, 0, 0], direction = PList [1, 0, 0 :: int]\<rparr>"
  let ?C = "[\<lparr>position = PList [2, 0, 0 :: int], direction = PNone\<rparr>,
             \<lparr>position = PList [- 2, 0, 0], direction = PNone\<rparr>,
             \<lparr>position = PList [0, 2, 0], direction = PNone\<rparr>]"
  have h1: "vec3 (position ?a)" by (simp add: vec3_def)
  have h2: "vec3 (direction ?a)" by (simp add: vec3_def)
  have h3: "\<forall>c\<in>set ?C. vec3 (position c)" by (simp add: vec3_def)
  from planar_front_behind_partition [OF h1 h2 h3]
  show ?thesis
    by (auto simp: dot_displacement_def coords_def)
qed

section \<open>The colinear test\<close>

text \<open>
  What \<open>is_linear\<close> computes on 3-component vectors. The fold
  \<^verbatim>\<open>reduce(lambda a, b: not bool(a or b), cross_product)\<close> first yields whether the
  first two components are both zero, and then negates the disjunction of that
  boolean with the third component: the flag \<^verbatim>\<open>all_zero\<close> is true iff the third
  component is zero and one of the first two is not.
\<close>

lemma is_linear_3d:
  "is_linear \<lparr>position = PList [px, py, pz], direction = PList [ax, ay, az]\<rparr>
             \<lparr>position = PList [qx, qy, qz], direction = nd\<rparr> front
   = Inr (((qy - py) * az - (qz - pz) * ay \<noteq> 0 \<or> (qx - px) * az - (qz - pz) * ax \<noteq> 0) \<and>
          (qx - px) * ay - (qy - py) * ax = 0 \<and>
          (((0 < qx - px \<and> 0 < ax) \<or> (0 < qy - py \<and> 0 < ay) \<or> (0 < qz - pz \<and> 0 < az))
             = front))"
  by (auto simp: is_linear_def displacement3 bindE_def py_or_def Let_def)

text \<open>
  C2. The claim: \<open>is_linear\<close> returns false when the cross product is not the zero
  vector and, when it is, returns whether the same-direction flag equals \<open>front\<close>. The
  code at the agent at the origin facing \<open>(1, 0, 0)\<close>: the neighbor at \<open>(2, 0, 0)\<close>
  (cross product zero, flag true, \<open>front\<close> true) is rejected, and the neighbor at
  \<open>(1, 0, 1)\<close> (cross product \<open>(0, -1, 0)\<close>) is accepted.
\<close>

theorem is_linear_colinear_rejected:
  "is_linear \<lparr>position = PList [0, 0, 0], direction = PList [1, 0, 0 :: int]\<rparr>
             \<lparr>position = PList [2, 0, 0], direction = PNone\<rparr> True = Inr False \<and>
   is_linear \<lparr>position = PList [0, 0, 0], direction = PList [1, 0, 0 :: int]\<rparr>
             \<lparr>position = PList [1, 0, 1], direction = PNone\<rparr> True = Inr True"
  by (simp add: is_linear_def displacement3 bindE_def py_or_def)

text \<open>
  C3. The claim: in colinear mode a candidate on the direction axis ahead is in
  \<open>neighbors_in_front\<close> only, one on the axis behind is in \<open>neighbors_behind\<close> only, and
  an off-axis candidate is in neither. The code at the agent at the origin facing
  \<open>(1, 0, 0)\<close> with candidates at \<open>(2, 0, 0)\<close>, \<open>(-2, 0, 0)\<close> and \<open>(1, 0, 1)\<close>:
  \<open>neighbors_in_front\<close> holds the off-axis candidate alone and \<open>neighbors_behind\<close> is
  empty.
\<close>

theorem colinear_mode_failing_input:
  "bindE (neighbors_in_front \<lparr>position = PList [0, 0, 0], direction = PList [1, 0, 0 :: int]\<rparr>
            [\<lparr>position = PList [2, 0, 0], direction = PNone\<rparr>,
             \<lparr>position = PList [- 2, 0, 0], direction = PNone\<rparr>,
             \<lparr>position = PList [1, 0, 1], direction = PNone\<rparr>] True) py_list
     = Inr [\<lparr>position = PList [1, 0, 1], direction = PNone\<rparr>] \<and>
   bindE (neighbors_behind \<lparr>position = PList [0, 0, 0], direction = PList [1, 0, 0 :: int]\<rparr>
            [\<lparr>position = PList [2, 0, 0], direction = PNone\<rparr>,
             \<lparr>position = PList [- 2, 0, 0], direction = PNone\<rparr>,
             \<lparr>position = PList [1, 0, 1], direction = PNone\<rparr>] True) py_list
     = Inr []"
  by (simp add: neighbors_in_front_def neighbors_behind_def is_linear_def displacement3
      bindE_def py_or_def)

section \<open>Preconditions and empty input\<close>

text \<open>
  C6, as stated: a reference agent whose direction is missing makes
  \<open>neighbors_in_front\<close> and \<open>neighbors_behind\<close> raise the direction error. For an agent
  that has neither position nor direction the position check comes first and the
  position error is raised.
\<close>

theorem direction_error_counterexample:
  "\<not> truthy (direction \<lparr>position = PNone, direction = (PNone :: int pyval)\<rparr>) \<and>
   neighbors_in_front \<lparr>position = PNone, direction = (PNone :: int pyval)\<rparr> [] False
     = Inl pos_error \<and>
   neighbors_in_front \<lparr>position = PNone, direction = (PNone :: int pyval)\<rparr> [] False
     \<noteq> Inl dir_error \<and>
   neighbors_behind \<lparr>position = PNone, direction = (PNone :: int pyval)\<rparr> [] False
     \<noteq> Inl dir_error"
  by (simp add: neighbors_in_front_def neighbors_behind_def bindE_def)

text \<open>
  C6, amended. For every candidate sequence: each of the four functions returns the
  position error at the call, before any filtering, when the reference agent's position
  is missing or falsy; \<open>neighbors_in_front\<close> and \<open>neighbors_behind\<close> return the direction
  error at the call when the reference agent's position is present and its direction
  is missing or falsy.
\<close>

theorem precondition_errors:
  "(\<not> truthy (position agent) \<longrightarrow>
      neighbors_on_position agent C = Inl pos_error \<and>
      neighbors_in_radius sp agent C max_radius min_radius name z_axis = Inl pos_error \<and>
      neighbors_in_front agent C colinear = Inl pos_error \<and>
      neighbors_behind agent C colinear = Inl pos_error) \<and>
   (truthy (position agent) \<and> \<not> truthy (direction agent) \<longrightarrow>
      neighbors_in_front agent C colinear = Inl dir_error \<and>
      neighbors_behind agent C colinear = Inl dir_error)"
  by (simp add: neighbors_on_position_def neighbors_in_radius_def neighbors_in_front_def
      neighbors_behind_def bindE_def)

text \<open>
  Instances with an empty position, and with a position but a direction that is
  \<^verbatim>\<open>None\<close> or empty; the candidate is one on which every predicate would raise.
\<close>

theorem precondition_errors_witness:
  "neighbors_on_position \<lparr>position = PList ([] :: real list), direction = PNone\<rparr>
     [\<lparr>position = PNone, direction = PNone\<rparr>] = Inl pos_error \<and>
   neighbors_in_radius spatial_spec \<lparr>position = PList ([] :: real list), direction = PNone\<rparr>
     [\<lparr>position = PNone, direction = PNone\<rparr>] 1 0 ''euclidean'' False = Inl pos_error \<and>
   neighbors_in_front \<lparr>position = PList ([] :: real list), direction = PNone\<rparr>
     [\<lparr>position = PNone, direction = PNone\<rparr>] False = Inl pos_error \<and>
   neighbors_behind \<lparr>position = PList ([] :: real list), direction = PNone\<rparr>
     [\<lparr>position = PNone, direction = PNone\<rparr>] False = Inl pos_error \<and>
   neighbors_in_front \<lparr>position = PList [0, 0, 0 :: real], direction = PNone\<rparr>
     [\<lparr>position = PNone, direction = PNone\<rparr>] False = Inl dir_error \<and>
   neighbors_behind \<lparr>position = PList [0, 0, 0 :: real], direction = PList []\<rparr>
     [\<lparr>position = PNone, direction = PNone\<rparr>] True = Inl dir_error"
  using precondition_errors [of "\<lparr>position = PList ([] :: real list), direction = PNone\<rparr>"
      "[\<lparr>position = PNone, direction = PNone\<rparr>]" spatial_spec 1 0 "''euclidean''" False False]
    precondition_errors [of "\<lparr>position = PList [0, 0, 0 :: real], direction = PNone\<rparr>"
      "[\<lparr>position = PNone, direction = PNone\<rparr>]" spatial_spec 1 0 "''euclidean''" False False]
    precondition_errors [of "\<lparr>position = PList [0, 0, 0 :: real], direction = PList []\<rparr>"
      "[\<lparr>position = PNone, direction = PNone\<rparr>]" spatial_spec 1 0 "''euclidean''" False True]
  by simp

text \<open>
  C9. For a reference agent that satisfies the field preconditions and an empty
  candidate sequence, each of the four functions returns a filter object that evaluates
  to the empty list; no error is raised at the call or at the evaluation.
\<close>

theorem empty_candidates_empty_result:
  assumes "truthy (position agent)"
  shows "(\<exists>f. neighbors_on_position agent [] = Inr f \<and> py_list f = Inr []) \<and>
         (\<exists>f. neighbors_in_radius sp agent [] max_radius min_radius name z_axis = Inr f \<and>
              py_list f = Inr []) \<and>
         (truthy (direction agent) \<longrightarrow>
            (\<exists>f. neighbors_in_front agent [] colinear = Inr f \<and> py_list f = Inr []) \<and>
            (\<exists>f. neighbors_behind agent [] colinear = Inr f \<and> py_list f = Inr []))"
  using assms
  by (simp add: neighbors_on_position_def neighbors_in_radius_def neighbors_in_front_def
      neighbors_behind_def bindE_def)

text \<open>An instance of all four calls.\<close>

theorem empty_candidates_witness:
  "bindE (neighbors_on_position
            \<lparr>position = PList [0, 0, 0 :: real], direction = PList [1, 0, 0]\<rparr> []) py_list
     = Inr [] \<and>
   bindE (neighbors_in_radius spatial_spec
            \<lparr>position = PList [0, 0, 0], direction = PList [1, 0, 0]\<rparr> []
            3 0 ''euclidean'' False) py_list = Inr [] \<and>
   bindE (neighbors_in_front
            \<lparr>position = PList [0, 0, 0 :: real], direction = PList [1, 0, 0]\<rparr> [] True) py_list
     = Inr [] \<and>
   bindE (neighbors_behind
            \<lparr>position = PList [0, 0, 0 :: real], direction = PList [1, 0, 0]\<rparr> [] False) py_list
     = Inr []"
proof -
  let ?a = "\<lparr>position = PList [0, 0, 0 :: real], direction = PList [1, 0, 0]\<rparr>"
  have h1: "truthy (position ?a)" by simp
  have h2: "truthy (direction ?a)" by simp
  from empty_candidates_empty_result [OF h1, of spatial_spec 3 0 "''euclidean''" False True]
    empty_candidates_empty_result [OF h1, of spatial_spec 3 0 "''euclidean''" False False] h2
  show ?thesis
    by (auto simp: bindE_def)
qed

end
